theory Spec2Isabelle
  imports Complex_Main
begin

section \<open>The finance tracker of day-01_finance_tracker.py\<close>

text \<open>
  The program keeps a list of transactions in memory (\<open>self.transactions\<close>), mirrors it
  to the file \<open>finances.json\<close> and prints listings, a summary and a CSV export.

  What the program takes from outside is a parameter of the model:
  \<^item> \<open>json_dump\<close> and \<open>json_load\<close>, the encoder and decoder of Python's json module
    (\<open>json_load\<close> returns \<open>None\<close> where the decoder raises);
  \<^item> \<open>float\<close>, Python's parser of a float literal (\<open>None\<close> where it raises ValueError);
  \<^item> \<open>str_amount\<close> and \<open>fmt2\<close>, the texts \<open>str(x)\<close> and \<open>format(x, '.2f')\<close> of an amount;
  \<^item> the readings of the clock, already formatted by \<open>strftime\<close>;
  \<^item> the lines typed at the console, a list consumed by \<open>input\<close>.
  The type of amounts is a type variable with the operations the code uses on it
  (\<open>0\<close>, \<open>+\<close>, \<open>-\<close>, \<open>abs\<close>, \<open><\<close>): Python computes on binary floating point, the
  specification speaks of decimals.

  The model has two layers. In the first the attribute \<open>self.transactions\<close> is typed:
  it holds a list of dictionaries with the five keys of a transaction, and a text that
  \<open>json_load\<close> accepts decodes to such a list. The second layer (the definitions with
  the suffix \<open>_json\<close>: loading, saving and adding) follows the attribute when the file
  holds any other JSON, which line 22 assigns as it comes; on lists of transactions the
  two layers agree (\<open>load_data_json_typed\<close>, \<open>add_transaction_json_typed\<close>). The
  listing, the summary and the export are modelled on typed lists only.
  The menu loop of \<open>main\<close> (lines 148-182), which only calls the methods, is not
  modelled.
\<close>

subsection \<open>Data\<close>

text \<open>A transaction is the dictionary built at lines 70-76, with its five keys.\<close>

record 'a transaction =
  id' :: int
  date :: string
  description :: string
  amount :: 'a
  type' :: string

text \<open>The object state of \<open>FinanceTracker\<close>: the single attribute set by \<open>__init__\<close>.\<close>

record 'a tracker =
  transactions :: "'a transaction list"

text \<open>
  The files the program can see. \<open>files\<close> maps a path to the text stored under it.
  \<open>denied p\<close> says that \<open>open(p, 'w')\<close> raises OSError (no permission to write, a
  directory in the way) and \<open>unreadable p\<close> that \<open>open(p, 'r')\<close> does (no permission to
  read); the two are independent, as the permissions of a file are. A write that fails
  half way is not modelled: \<open>open\<close> either raises and leaves the file alone, or the
  whole text is written.
\<close>

record world =
  files :: "string \<rightharpoonup> string"
  denied :: "string \<Rightarrow> bool"
  unreadable :: "string \<Rightarrow> bool"

datatype exn = EOFError | OSError | JSONDecodeError | TypeError | AttributeError

definition DATA_FILE :: string where
  "DATA_FILE = ''finances.json''"

definition path_exists :: "world \<Rightarrow> string \<Rightarrow> bool" where
  "path_exists w p = (files w p \<noteq> None)"

definition open_read :: "world \<Rightarrow> string \<Rightarrow> exn + string" where
  "open_read w p =
     (if unreadable w p then Inl OSError
      else case files w p of None \<Rightarrow> Inl OSError | Some text \<Rightarrow> Inr text)"

definition open_write :: "world \<Rightarrow> string \<Rightarrow> string \<Rightarrow> exn + world" where
  "open_write w p text =
     (if denied w p then Inl OSError
      else Inr (w\<lparr>files := (files w)(p \<mapsto> text)\<rparr>))"

subsection \<open>Loading and saving\<close>

datatype load_report = Loaded nat | ErrorLoading exn | NoDataFile

datatype save_report = DataSaved | ErrorSaving exn

text \<open>
  \<open>load_data\<close> (lines 17-28). Every exception of the \<open>try\<close> block ends in the handler,
  which prints the error and resets the list.
\<close>

definition load_data ::
  "(string \<Rightarrow> 'a transaction list option) \<Rightarrow> world \<Rightarrow> 'a tracker \<Rightarrow> load_report \<times> 'a tracker" where
  "load_data json_load w self =
     (if path_exists w DATA_FILE then
        (case open_read w DATA_FILE of
           Inl e \<Rightarrow> (ErrorLoading e, self\<lparr>transactions := []\<rparr>)
         | Inr text \<Rightarrow>
             (case json_load text of
                None \<Rightarrow> (ErrorLoading JSONDecodeError, self\<lparr>transactions := []\<rparr>)
              | Some ts \<Rightarrow> (Loaded (length ts), self\<lparr>transactions := ts\<rparr>)))
      else (NoDataFile, self))"

text \<open>\<open>__init__\<close> (lines 13-15): the empty list, then \<open>load_data\<close>.\<close>

definition init ::
  "(string \<Rightarrow> 'a transaction list option) \<Rightarrow> world \<Rightarrow> load_report \<times> 'a tracker" where
  "init json_load w = load_data json_load w \<lparr>transactions = []\<rparr>"

text \<open>
  \<open>save_data\<close> (lines 30-37) rewrites the whole file. A method that writes returns the
  report it prints, the object as it leaves it and the files as it leaves them.
\<close>

definition save_data ::
  "('a transaction list \<Rightarrow> string) \<Rightarrow> 'a tracker \<Rightarrow> world \<Rightarrow> save_report \<times> 'a tracker \<times> world" where
  "save_data json_dump self w =
     (case open_write w DATA_FILE (json_dump (transactions self)) of
        Inl e \<Rightarrow> (ErrorSaving e, self, w)
      | Inr w' \<Rightarrow> (DataSaved, self, w'))"

subsection \<open>Adding a transaction\<close>

text \<open>
  \<open>input()\<close> takes the next line typed, and raises EOFError when there is none.
  \<open>str.strip()\<close> removes the white space at both ends. A \<open>char\<close> stands for a code
  point below 256; there the white space characters of Python are the codes 9 to 13,
  28 to 32, 133 and 160. White space beyond 255 (such as U+2003) is outside the strings
  of the model.
\<close>

fun input :: "string list \<Rightarrow> exn + string \<times> string list" where
  "input [] = Inl EOFError"
| "input (l # ls) = Inr (l, ls)"

definition isspace :: "char \<Rightarrow> bool" where
  "isspace c =
     (let n = of_char c :: nat
      in (9 \<le> n \<and> n \<le> 13) \<or> (28 \<le> n \<and> n \<le> 32) \<or> n = 133 \<or> n = 160)"

definition strip :: "string \<Rightarrow> string" where
  "strip s = rev (dropWhile isspace (rev (dropWhile isspace s)))"

text \<open>The loop of lines 46-51: ask again until \<open>float\<close> accepts the line.\<close>

fun read_amount :: "(string \<Rightarrow> 'a option) \<Rightarrow> string list \<Rightarrow> exn + 'a \<times> string list" where
  "read_amount float [] = Inl EOFError"
| "read_amount float (l # ls) =
     (case float l of Some a \<Rightarrow> Inr (a, ls) | None \<Rightarrow> read_amount float ls)"

text \<open>
  The loop of lines 57-67: ask again until the choice is 1 or 2. Choice 2 negates the
  amount, whatever its sign.
\<close>

fun read_choice :: "'a::uminus \<Rightarrow> string list \<Rightarrow> exn + (string \<times> 'a) \<times> string list" where
  "read_choice a [] = Inl EOFError"
| "read_choice a (l # ls) =
     (if strip l = ''1'' then Inr ((''income'', a), ls)
      else if strip l = ''2'' then Inr ((''expense'', - a), ls)
      else read_choice a ls)"

text \<open>
  \<open>add_transaction\<close> (lines 39-82). \<open>now\<close> is the clock reading in the format
  \<open>%Y-%m-%d %H:%M:%S\<close>. An exception of \<open>input\<close> leaves the method before anything is
  stored. The automatic save at the end reports its own failure and raises nothing.
  The result holds the new object state, the files, the report of the save and the
  lines not yet read.
\<close>

definition add_transaction ::
  "(string \<Rightarrow> 'a option) \<Rightarrow> ('a transaction list \<Rightarrow> string) \<Rightarrow> string \<Rightarrow> string list \<Rightarrow>
     'a::uminus tracker \<Rightarrow> world \<Rightarrow> exn + ('a tracker \<times> world \<times> save_report \<times> string list)" where
  "add_transaction float json_dump now ins self w =
     (case input ins of
        Inl e \<Rightarrow> Inl e
      | Inr (line, ins1) \<Rightarrow>
          (case read_amount float ins1 of
             Inl e \<Rightarrow> Inl e
           | Inr (a, ins2) \<Rightarrow>
               (case read_choice a ins2 of
                  Inl e \<Rightarrow> Inl e
                | Inr ((transaction_type, a'), ins3) \<Rightarrow>
                    (let t = \<lparr>id' = int (length (transactions self)) + 1,
                              date = now,
                              description = strip line,
                              amount = a',
                              type' = transaction_type\<rparr>;
                         self1 = self\<lparr>transactions := transactions self @ [t]\<rparr>;
                         (report, self2, w') = save_data json_dump self1 w
                     in Inr (self2, w', report, ins3)))))"

subsection \<open>Listing, summary and export\<close>

text \<open>\<open>str(n)\<close> of an integer: its decimal digits, with a minus sign below zero.\<close>

fun str_nat :: "nat \<Rightarrow> string" where
  "str_nat n =
     (if n < 10 then [char_of (48 + n)]
      else str_nat (n div 10) @ [char_of (48 + n mod 10)])"

definition str_int :: "int \<Rightarrow> string" where
  "str_int i = (if i < 0 then CHR ''-'' # str_nat (nat (- i)) else str_nat (nat i))"

text \<open>The format specifications \<open><n\<close> and \<open>>n\<close>: pad with spaces, never cut.\<close>

definition ljust :: "nat \<Rightarrow> string \<Rightarrow> string" where
  "ljust n s = s @ replicate (n - length s) CHR '' ''"

definition rjust :: "nat \<Rightarrow> string \<Rightarrow> string" where
  "rjust n s = replicate (n - length s) CHR '' '' @ s"

definition esc :: string where
  "esc = [char_of (27 :: nat)]"

definition newline :: string where
  "newline = [char_of (10 :: nat)]"

text \<open>One line of the table (lines 94-102): the amount in green from zero up, in red below.\<close>

definition table_row :: "('a \<Rightarrow> string) \<Rightarrow> 'a::{zero,ord} transaction \<Rightarrow> string" where
  "table_row fmt2 t =
     (let amount0 = ''$'' @ fmt2 (amount t);
          amount1 = (if 0 \<le> amount t then esc @ ''[92m'' @ amount0 @ esc @ ''[0m''
                     else esc @ ''[91m'' @ amount0 @ esc @ ''[0m'')
      in ljust 4 (str_int (id' t)) @ '' '' @ ljust 20 (take 19 (date t)) @ '' '' @
         ljust 25 (take 23 (description t)) @ '' '' @ rjust 10 amount1)"

datatype listing = NoTransactionsFound | Table "string list"

text \<open>\<open>show_transactions\<close> (lines 84-104): the lines printed, or the notice of line 87.\<close>

definition show_transactions :: "('a \<Rightarrow> string) \<Rightarrow> 'a::{zero,ord} tracker \<Rightarrow> listing" where
  "show_transactions fmt2 self =
     (if transactions self = [] then NoTransactionsFound
      else Table
        ([[], replicate 60 CHR ''='',
          ljust 4 ''ID'' @ '' '' @ ljust 20 ''Date'' @ '' '' @ ljust 25 ''Description'' @ '' '' @
            rjust 10 ''Amount'',
          replicate 60 CHR ''='']
         @ map (table_row fmt2) (transactions self)
         @ [replicate 60 CHR ''='']))"

text \<open>Python's \<open>sum\<close>: start from 0 and add the items from left to right.\<close>

definition py_sum :: "'a::{zero,plus} list \<Rightarrow> 'a" where
  "py_sum xs = foldl (+) 0 xs"

datatype status = PositiveBalance | BreakEven | NegativeBalance

datatype 'a summary =
  NoTransactionsToSummarize
  | Summary (total_income: 'a) (total_expenses: 'a) (balance: 'a) (financial_status: status)

text \<open>
  \<open>show_summary\<close> (lines 106-130): the notice of line 109 on an empty list, otherwise
  the three totals and the status line printed under them.
\<close>

definition show_summary :: "'a::{zero,plus,minus,abs,ord} tracker \<Rightarrow> 'a summary" where
  "show_summary self =
     (if transactions self = [] then NoTransactionsToSummarize
      else
        (let total_income = py_sum (map amount (filter (\<lambda>t. 0 < amount t) (transactions self)));
             total_expenses = \<bar>py_sum (map amount (filter (\<lambda>t. amount t < 0) (transactions self)))\<bar>;
             balance = total_income - total_expenses
         in Summary total_income total_expenses balance
              (if 0 < balance then PositiveBalance
               else if balance = 0 then BreakEven
               else NegativeBalance)))"

datatype export_report = NoTransactionsToExport | Exported string | ExportFailed exn

text \<open>The f-string of line 143: the five values and the commas between them.\<close>

definition csv_line :: "('a \<Rightarrow> string) \<Rightarrow> 'a transaction \<Rightarrow> string" where
  "csv_line str_amount t =
     str_int (id' t) @ '','' @ date t @ '','' @ description t @ '','' @
     str_amount (amount t) @ '','' @ type' t @ newline"

text \<open>
  \<open>export_to_csv\<close> (lines 132-146). \<open>stamp\<close> is the clock reading in the format
  \<open>%Y%m%d_%H%M%S\<close>. The text of the file is what the calls of \<open>f.write\<close> put one after
  the other.
\<close>

definition export_to_csv ::
  "('a \<Rightarrow> string) \<Rightarrow> string \<Rightarrow> 'a tracker \<Rightarrow> world \<Rightarrow> export_report \<times> 'a tracker \<times> world" where
  "export_to_csv str_amount stamp self w =
     (if transactions self = [] then (NoTransactionsToExport, self, w)
      else
        (let filename = ''finances_export_'' @ stamp @ ''.csv'';
             written = foldl (\<lambda>buf t. buf @ csv_line str_amount t)
                         (''ID,Date,Description,Amount,Type'' @ newline) (transactions self)
         in case open_write w filename written of
              Inl e \<Rightarrow> (ExportFailed e, self, w)
            | Inr w' \<Rightarrow> (Exported filename, self, w')))"

subsection \<open>The attribute as any JSON value\<close>

text \<open>
  What \<open>json.load\<close> can return: \<open>None\<close>, a boolean, an integer, a float, a string, a list
  or a dictionary (the list of its items, one for each key).
\<close>

datatype 'a json =
  JNull
  | JBool bool
  | JInt int
  | JFloat 'a
  | JString string
  | JArray "'a json list"
  | JObject "(string \<times> 'a json) list"

text \<open>\<open>len(v)\<close>: strings, lists and dictionaries have a length, the other values raise.\<close>

fun py_len :: "'a json \<Rightarrow> exn + nat" where
  "py_len (JString s) = Inr (length s)"
| "py_len (JArray vs) = Inr (length vs)"
| "py_len (JObject kvs) = Inr (length kvs)"
| "py_len v = Inl TypeError"

text \<open>
  \<open>load_data\<close> (lines 17-28) on an attribute that may hold any value. The value decoded
  is assigned at line 22 without a look at it; \<open>len\<close> at line 23 is inside the \<open>try\<close>, so
  a value without a length ends in the handler like a text that does not decode.
\<close>

definition load_data_json ::
  "(string \<Rightarrow> 'a json option) \<Rightarrow> world \<Rightarrow> 'a json \<Rightarrow> load_report \<times> 'a json" where
  "load_data_json json_load w transactions0 =
     (if path_exists w DATA_FILE then
        (case open_read w DATA_FILE of
           Inl e \<Rightarrow> (ErrorLoading e, JArray [])
         | Inr text \<Rightarrow>
             (case json_load text of
                None \<Rightarrow> (ErrorLoading JSONDecodeError, JArray [])
              | Some v \<Rightarrow>
                  (case py_len v of
                     Inl e \<Rightarrow> (ErrorLoading e, JArray [])
                   | Inr n \<Rightarrow> (Loaded n, v))))
      else (NoDataFile, transactions0))"

definition init_json :: "(string \<Rightarrow> 'a json option) \<Rightarrow> world \<Rightarrow> load_report \<times> 'a json" where
  "init_json json_load w = load_data_json json_load w (JArray [])"

definition save_data_json ::
  "('a json \<Rightarrow> string) \<Rightarrow> 'a json \<Rightarrow> world \<Rightarrow> save_report \<times> 'a json \<times> world" where
  "save_data_json json_dump transactions0 w =
     (case open_write w DATA_FILE (json_dump transactions0) of
        Inl e \<Rightarrow> (ErrorSaving e, transactions0, w)
      | Inr w' \<Rightarrow> (DataSaved, transactions0, w'))"

text \<open>
  \<open>add_transaction\<close> (lines 39-82) on such an attribute. After the three inputs, line 71
  takes \<open>len\<close> of the attribute and line 78 calls its \<open>append\<close>, which only a list has:
  on a string or a dictionary the method raises AttributeError, outside any handler.
\<close>

definition add_transaction_json ::
  "(string \<Rightarrow> 'a option) \<Rightarrow> ('a json \<Rightarrow> string) \<Rightarrow> string \<Rightarrow> string list \<Rightarrow>
     'a::uminus json \<Rightarrow> world \<Rightarrow> exn + ('a json \<times> world \<times> save_report \<times> string list)" where
  "add_transaction_json float json_dump now ins transactions0 w =
     (case input ins of
        Inl e \<Rightarrow> Inl e
      | Inr (line, ins1) \<Rightarrow>
          (case read_amount float ins1 of
             Inl e \<Rightarrow> Inl e
           | Inr (a, ins2) \<Rightarrow>
               (case read_choice a ins2 of
                  Inl e \<Rightarrow> Inl e
                | Inr ((transaction_type, a'), ins3) \<Rightarrow>
                    (case py_len transactions0 of
                       Inl e \<Rightarrow> Inl e
                     | Inr n \<Rightarrow>
                         (let t = JObject [(''id'', JInt (int n + 1)),
                                           (''date'', JString now),
                                           (''description'', JString (strip line)),
                                           (''amount'', JFloat a'),
                                           (''type'', JString transaction_type)]
                          in case transactions0 of
                               JArray vs \<Rightarrow>
                                 (let (report, transactions1, w') =
                                        save_data_json json_dump (JArray (vs @ [t])) w
                                  in Inr (transactions1, w', report, ins3))
                             | _ \<Rightarrow> Inl AttributeError)))))"

text \<open>A typed transaction as the dictionary it stands for, and a typed list as a list.\<close>

definition dict_of :: "'a transaction \<Rightarrow> 'a json" where
  "dict_of t =
     JObject [(''id'', JInt (id' t)),
              (''date'', JString (date t)),
              (''description'', JString (description t)),
              (''amount'', JFloat (amount t)),
              (''type'', JString (type' t))]"

definition list_of :: "'a transaction list \<Rightarrow> 'a json" where
  "list_of ts = JArray (map dict_of ts)"

subsection \<open>The arithmetic of Python's floats\<close>

text \<open>
  \<open>float(input())\<close> makes every amount typed at the console a binary64 number.
  \<open>Double m e\<close> is the number \<open>m * 2 ^ e\<close>. A sum is the exact sum rounded to 53
  significant bits, to the nearest value and to the even one of two nearest; the result
  is kept in normal form (an odd \<open>m\<close>, or \<open>Double 0 0\<close>), so that equal numbers are
  equal terms. Left out: the bounds of the exponent (overflow, subnormal numbers),
  infinities, NaN and the sign of zero. \<open>py_sum\<close> on this type adds from left to right
  and rounds each sum, as \<open>sum\<close> does in the interpreters before version 3.12.
\<close>

datatype double = Double int int

function bit_length :: "int \<Rightarrow> nat" where
  "bit_length n = (if n \<le> 0 then 0 else Suc (bit_length (n div 2)))"
  by pat_completeness auto
termination
  by (relation "measure nat") auto

function normal :: "int \<Rightarrow> int \<Rightarrow> double" where
  "normal m e =
     (if m = 0 then Double 0 0
      else if even m then normal (m div 2) (e + 1)
      else Double m e)"
  by pat_completeness auto
termination
  by (relation "measure (\<lambda>(m, e). nat \<bar>m\<bar>)") auto

definition round53 :: "int \<Rightarrow> int \<Rightarrow> double" where
  "round53 m e =
     (let k = bit_length \<bar>m\<bar> - 53;
          q = \<bar>m\<bar> div 2 ^ k;
          r = \<bar>m\<bar> mod 2 ^ k;
          q' = (if 2 ^ k < 2 * r \<or> (2 * r = 2 ^ k \<and> odd q) then q + 1 else q)
      in normal (sgn m * q') (e + int k))"

instantiation double :: "{zero, plus, uminus, minus, abs, ord}"
begin

definition zero_double :: double where
  "zero_double = Double 0 0"

definition plus_double :: "double \<Rightarrow> double \<Rightarrow> double" where
  "plus_double x y =
     (case x of Double m1 e1 \<Rightarrow> case y of Double m2 e2 \<Rightarrow>
        (let e = min e1 e2
         in round53 (m1 * 2 ^ nat (e1 - e) + m2 * 2 ^ nat (e2 - e)) e))"

definition uminus_double :: "double \<Rightarrow> double" where
  "uminus_double x = (case x of Double m e \<Rightarrow> Double (- m) e)"

definition minus_double :: "double \<Rightarrow> double \<Rightarrow> double" where
  "minus_double x y = x + (- y)"

definition abs_double :: "double \<Rightarrow> double" where
  "abs_double x = (case x of Double m e \<Rightarrow> Double \<bar>m\<bar> e)"

definition less_double :: "double \<Rightarrow> double \<Rightarrow> bool" where
  "less_double x y =
     (case x of Double m1 e1 \<Rightarrow> case y of Double m2 e2 \<Rightarrow>
        (let e = min e1 e2 in m1 * 2 ^ nat (e1 - e) < m2 * 2 ^ nat (e2 - e)))"

definition less_eq_double :: "double \<Rightarrow> double \<Rightarrow> bool" where
  "less_eq_double x y =
     (case x of Double m1 e1 \<Rightarrow> case y of Double m2 e2 \<Rightarrow>
        (let e = min e1 e2 in m1 * 2 ^ nat (e1 - e) \<le> m2 * 2 ^ nat (e2 - e)))"

instance ..

end

text \<open>
  Interpreters from version 3.12 on add floats inside \<open>sum\<close> with a compensation (the
  algorithm of Neumaier): \<open>f\<close> is the running sum, \<open>c\<close> collects what each rounded sum
  lost and is added at the end. \<open>show_summary\<close> is stated with \<open>py_sum\<close>; the lemmas
  \<open>py_sum_compensated_exact\<close> and \<open>py_sum_compensated_floats\<close> carry its statements over
  to this sum.
\<close>

fun compensated :: "'a::{plus,minus,abs,ord} \<Rightarrow> 'a \<Rightarrow> 'a list \<Rightarrow> 'a \<times> 'a" where
  "compensated f c [] = (f, c)"
| "compensated f c (x # xs) =
     (let t = f + x
      in compensated t (if \<bar>x\<bar> \<le> \<bar>f\<bar> then c + ((f - t) + x) else c + ((x - t) + f)) xs)"

definition py_sum_compensated :: "'a::{zero,plus,minus,abs,ord} list \<Rightarrow> 'a" where
  "py_sum_compensated xs = (case compensated 0 0 xs of (f, c) \<Rightarrow> if c = 0 then f else f + c)"

subsection \<open>The wording of the specification\<close>

text \<open>
  The agreement of the label with the sign, as the specification words it: an expense
  is at most zero, an income at least zero.
\<close>

definition kind_agrees :: "'a::{zero,ord} transaction \<Rightarrow> bool" where
  "kind_agrees t =
     ((type' t = ''expense'' \<longrightarrow> amount t \<le> 0) \<and> (type' t = ''income'' \<longrightarrow> 0 \<le> amount t))"

text \<open>
  The export as the specification words it: the header row, then one row for each
  transaction, the values of a row joined by commas and nothing else.
\<close>

fun comma_join :: "string list \<Rightarrow> string" where
  "comma_join [] = []"
| "comma_join [x] = x"
| "comma_join (x # y # ys) = x @ '','' @ comma_join (y # ys)"

definition export_rows_spec :: "('a \<Rightarrow> string) \<Rightarrow> 'a transaction list \<Rightarrow> string list" where
  "export_rows_spec str_amount ts =
     ''ID,Date,Description,Amount,Type'' #
     map (\<lambda>t. comma_join [str_int (id' t), date t, description t, str_amount (amount t), type' t]) ts"

section \<open>Properties\<close>

subsection \<open>Auxiliary facts\<close>

lemma save_data_result:
  "save_data json_dump self w =
     (if denied w DATA_FILE then (ErrorSaving OSError, self, w)
      else (DataSaved, self, w\<lparr>files := (files w)(DATA_FILE \<mapsto> json_dump (transactions self))\<rparr>))"
  by (simp add: save_data_def open_write_def)

text \<open>What \<open>add_transaction\<close> returns once an amount and a choice have been accepted.\<close>

lemma add_transaction_valid:
  assumes "read_amount float ins1 = Inr (a, ins2)"
    and "read_choice a ins2 = Inr ((k, a'), ins3)"
  shows "add_transaction float json_dump now (line # ins1) self w =
           Inr (fst (snd (save_data json_dump
                  (self\<lparr>transactions := transactions self @
                     [\<lparr>id' = int (length (transactions self)) + 1, date = now,
                       description = strip line, amount = a', type' = k\<rparr>]\<rparr>) w)),
                snd (snd (save_data json_dump
                  (self\<lparr>transactions := transactions self @
                     [\<lparr>id' = int (length (transactions self)) + 1, date = now,
                       description = strip line, amount = a', type' = k\<rparr>]\<rparr>) w)),
                fst (save_data json_dump
                  (self\<lparr>transactions := transactions self @
                     [\<lparr>id' = int (length (transactions self)) + 1, date = now,
                       description = strip line, amount = a', type' = k\<rparr>]\<rparr>) w),
                ins3)"
  using assms by (simp add: add_transaction_def Let_def split: prod.splits)

lemma read_choice_result:
  "read_choice a ins = Inr ((k, a'), ins') \<Longrightarrow>
     (k = ''income'' \<and> a' = a) \<or> (k = ''expense'' \<and> a' = - a)"
  by (induction ins) (auto split: if_splits)

lemma foldl_plus_sum_list: "foldl (+) a xs = a + sum_list (xs :: 'a::monoid_add list)"
  by (induction xs arbitrary: a) (simp_all add: add.assoc)

lemma py_sum_sum_list: "py_sum xs = sum_list (xs :: 'a::monoid_add list)"
  by (simp add: py_sum_def foldl_plus_sum_list)

lemma sum_list_by_sign:
  "sum_list (filter (\<lambda>x. 0 < x) xs) + sum_list (filter (\<lambda>x. x < 0) xs)
     = sum_list (xs :: 'a::linordered_idom list)"
  by (induction xs) (auto simp: algebra_simps not_less)

lemma sum_list_negatives: "sum_list (filter (\<lambda>x. x < 0) xs) \<le> (0 :: 'a::linordered_idom)"
  by (induction xs) (auto intro: add_nonpos_nonpos)

lemma load_data_result:
  "load_data json_load w self =
     (case files w DATA_FILE of
        None \<Rightarrow> (NoDataFile, self)
      | Some text \<Rightarrow>
          if unreadable w DATA_FILE then (ErrorLoading OSError, self\<lparr>transactions := []\<rparr>)
          else (case json_load text of
                  None \<Rightarrow> (ErrorLoading JSONDecodeError, self\<lparr>transactions := []\<rparr>)
                | Some ts \<Rightarrow> (Loaded (length ts), self\<lparr>transactions := ts\<rparr>)))"
  by (simp add: load_data_def path_exists_def open_read_def split: option.splits)

lemma export_to_csv_self: "fst (snd (export_to_csv str_amount stamp self w)) = self"
  by (simp add: export_to_csv_def open_write_def Let_def)

lemma foldl_append_concat: "foldl (\<lambda>buf t. buf @ f t) buf0 ts = buf0 @ concat (map f ts)"
  by (induction ts arbitrary: buf0) simp_all

lemma csv_line_comma_join:
  "csv_line str_amount t =
     comma_join [str_int (id' t), date t, description t, str_amount (amount t), type' t] @ newline"
  by (simp add: csv_line_def)

lemma upto_snoc: "0 \<le> n \<Longrightarrow> [1..n + 1] = [1..n] @ [n + 1]"
  by (simp add: upto_rec2)

lemma load_data_json_result:
  "load_data_json json_load w v0 =
     (case files w DATA_FILE of
        None \<Rightarrow> (NoDataFile, v0)
      | Some text \<Rightarrow>
          if unreadable w DATA_FILE then (ErrorLoading OSError, JArray [])
          else (case json_load text of
                  None \<Rightarrow> (ErrorLoading JSONDecodeError, JArray [])
                | Some v \<Rightarrow>
                    (case py_len v of
                       Inl e \<Rightarrow> (ErrorLoading e, JArray [])
                     | Inr n \<Rightarrow> (Loaded n, v))))"
  by (simp add: load_data_json_def path_exists_def open_read_def split: option.splits)

lemma save_data_json_result:
  "save_data_json json_dump v w =
     (if denied w DATA_FILE then (ErrorSaving OSError, v, w)
      else (DataSaved, v, w\<lparr>files := (files w)(DATA_FILE \<mapsto> json_dump v)\<rparr>))"
  by (simp add: save_data_json_def open_write_def)

text \<open>On a list of transactions the second layer does what the first does.\<close>

lemma load_data_json_typed:
  "load_data_json (\<lambda>text. map_option list_of (json_load text)) w (list_of (transactions self))
     = (fst (load_data json_load w self),
        list_of (transactions (snd (load_data json_load w self))))"
  by (simp add: load_data_json_result load_data_result list_of_def split: option.splits)

lemma add_transaction_json_typed:
  "add_transaction_json float json_dump now ins (list_of (transactions self)) w
     = (case add_transaction float (\<lambda>ts. json_dump (list_of ts)) now ins self w of
          Inl e \<Rightarrow> Inl e
        | Inr (self', w', report, ins') \<Rightarrow> Inr (list_of (transactions self'), w', report, ins'))"
  by (simp add: add_transaction_json_def add_transaction_def save_data_json_result
      save_data_result list_of_def dict_of_def Let_def split: sum.splits prod.splits)

lemma add_transaction_json_valid:
  assumes "read_amount float ins1 = Inr (a, ins2)"
    and "read_choice a ins2 = Inr ((k, a'), ins3)"
  shows "add_transaction_json float json_dump now (line # ins1) (JArray vs) w =
           Inr (JArray (vs @ [JObject [(''id'', JInt (int (length vs) + 1)),
                                       (''date'', JString now),
                                       (''description'', JString (strip line)),
                                       (''amount'', JFloat a'),
                                       (''type'', JString k)]]),
                snd (snd (save_data_json json_dump
                  (JArray (vs @ [JObject [(''id'', JInt (int (length vs) + 1)),
                                          (''date'', JString now),
                                          (''description'', JString (strip line)),
                                          (''amount'', JFloat a'),
                                          (''type'', JString k)]])) w)),
                fst (save_data_json json_dump
                  (JArray (vs @ [JObject [(''id'', JInt (int (length vs) + 1)),
                                          (''date'', JString now),
                                          (''description'', JString (strip line)),
                                          (''amount'', JFloat a'),
                                          (''type'', JString k)]])) w),
                ins3)"
  using assms
  by (simp add: add_transaction_json_def save_data_json_result Let_def split: prod.splits)

text \<open>The two sums agree where addition is exact, and on the floats used below.\<close>

lemma compensated_exact:
  "compensated f 0 xs = (f + sum_list xs, 0 :: 'a::linordered_idom)"
  by (induction xs arbitrary: f) (simp_all add: Let_def algebra_simps)

lemma py_sum_compensated_exact:
  "py_sum_compensated xs = py_sum (xs :: 'a::linordered_idom list)"
  by (simp add: py_sum_compensated_def compensated_exact py_sum_sum_list)

lemma py_sum_compensated_floats:
  "py_sum_compensated [Double 152587890625 16, Double 1 0] = Double 152587890625 16 \<and>
   py_sum_compensated [Double (- 152587890625) 16] = Double (- 152587890625) 16 \<and>
   py_sum_compensated [Double 152587890625 16, Double (- 152587890625) 16, Double 1 0] = Double 1 0"
  by code_simp

subsection \<open>Appending\<close>

text \<open>
  Claim C2. Whatever the description typed, once \<open>float\<close> has accepted an amount and the
  choice was 1 or 2 (after any number of refused lines), \<open>add_transaction\<close> returns
  normally, and the list it leaves is the old list with exactly one transaction added at
  its end: the length grows by one, the transactions already there keep their places,
  and the new one has the id \<open>previous length + 1\<close>. This holds for every state of the
  object and of the files.
\<close>

theorem add_transaction_appends_one:
  assumes "read_amount float ins1 = Inr (a, ins2)"
    and "read_choice a ins2 = Inr ((k, a'), ins3)"
  shows "\<exists>self' w' report.
           add_transaction float json_dump now (line # ins1) self w = Inr (self', w', report, ins3) \<and>
           transactions self' = transactions self @
             [\<lparr>id' = int (length (transactions self)) + 1, date = now,
               description = strip line, amount = a', type' = k\<rparr>] \<and>
           length (transactions self') = length (transactions self) + 1"
  by (simp add: add_transaction_valid [OF assms] save_data_result)

text \<open>
  An expense of 4.50 typed after a refused amount and a refused choice, on a list that
  holds one transaction.
\<close>

theorem add_transaction_appends_one_witness:
  "\<exists>self' w' report.
     add_transaction (\<lambda>s. if s = ''4.50'' then Some (Double 9 (- 1)) else None) (\<lambda>ts. ''[...]'')
       ''2024-03-01 09:30:00'' [''Coffee'', ''four'', ''4.50'', ''3'', ''2'', ''1'']
       \<lparr>transactions = [\<lparr>id' = 1, date = ''2024-02-28 18:00:00'', description = ''Paycheck'',
                          amount = Double 125 4, type' = ''income''\<rparr>]\<rparr>
       \<lparr>files = Map.empty, denied = (\<lambda>p. False), unreadable = (\<lambda>p. False)\<rparr>
       = Inr (self', w', report, [''1'']) \<and>
     transactions self' =
       [\<lparr>id' = 1, date = ''2024-02-28 18:00:00'', description = ''Paycheck'',
         amount = Double 125 4, type' = ''income''\<rparr>,
        \<lparr>id' = 2, date = ''2024-03-01 09:30:00'', description = ''Coffee'',
         amount = Double (- 9) (- 1), type' = ''expense''\<rparr>] \<and>
     length (transactions self') = 2"
proof -
  let ?float = "\<lambda>s. if s = ''4.50'' then Some (Double 9 (- 1)) else None"
  have amount_read: "read_amount ?float [''four'', ''4.50'', ''3'', ''2'', ''1'']
                       = Inr (Double 9 (- 1), [''3'', ''2'', ''1''])"
    by simp
  have choice_read: "read_choice (Double 9 (- 1)) [''3'', ''2'', ''1'']
                       = Inr ((''expense'', Double (- 9) (- 1)), [''1''])"
    by (simp add: strip_def isspace_def uminus_double_def)
  show ?thesis
    using add_transaction_appends_one [OF amount_read choice_read, of "\<lambda>ts. ''[...]''"
        "''2024-03-01 09:30:00''" "''Coffee''"
        "\<lparr>transactions = [\<lparr>id' = 1, date = ''2024-02-28 18:00:00'', description = ''Paycheck'',
                          amount = Double 125 4, type' = ''income''\<rparr>]\<rparr>"
        "\<lparr>files = Map.empty, denied = (\<lambda>p. False), unreadable = (\<lambda>p. False)\<rparr>"]
    by (simp add: strip_def isspace_def numeral_2_eq_2)
qed

subsection \<open>The summary\<close>

text \<open>
  Claim C1, as amended. For every list that is not empty, \<open>show_summary\<close> reports as
  total income the sum (from left to right) of the amounts above zero, as total expenses
  the absolute value of the sum of the amounts below zero, so that an amount of zero
  enters neither, and as balance the income minus the expenses, with the status read off
  the balance; this holds in whatever arithmetic the amounts are added (first conjunct).
  Where the amounts add exactly, as decimals or integers do, the two sums are the sums
  of the specification and the balance is the sum of all amounts (the other conjuncts).
\<close>

theorem show_summary_totals:
  fixes self :: "'a::linordered_idom tracker"
    and self2 :: "'b::{zero,plus,minus,abs,ord} tracker"
  assumes "transactions self \<noteq> []" and "transactions self2 \<noteq> []"
  shows "show_summary self2 =
           Summary
             (py_sum (filter (\<lambda>x. 0 < x) (map amount (transactions self2))))
             \<bar>py_sum (filter (\<lambda>x. x < 0) (map amount (transactions self2)))\<bar>
             (py_sum (filter (\<lambda>x. 0 < x) (map amount (transactions self2)))
                - \<bar>py_sum (filter (\<lambda>x. x < 0) (map amount (transactions self2)))\<bar>)
             (if 0 < py_sum (filter (\<lambda>x. 0 < x) (map amount (transactions self2)))
                    - \<bar>py_sum (filter (\<lambda>x. x < 0) (map amount (transactions self2)))\<bar>
              then PositiveBalance
              else if py_sum (filter (\<lambda>x. 0 < x) (map amount (transactions self2)))
                    - \<bar>py_sum (filter (\<lambda>x. x < 0) (map amount (transactions self2)))\<bar> = 0
              then BreakEven else NegativeBalance) \<and>
         show_summary self \<noteq> NoTransactionsToSummarize \<and>
         total_income (show_summary self)
           = sum_list (filter (\<lambda>x. 0 < x) (map amount (transactions self))) \<and>
         total_expenses (show_summary self)
           = \<bar>sum_list (filter (\<lambda>x. x < 0) (map amount (transactions self)))\<bar> \<and>
         balance (show_summary self)
           = total_income (show_summary self) - total_expenses (show_summary self) \<and>
         balance (show_summary self) = sum_list (map amount (transactions self))"
proof -
  let ?xs = "map amount (transactions self)"
  have neg: "\<bar>sum_list (filter (\<lambda>x. x < 0) ?xs)\<bar> = - sum_list (filter (\<lambda>x. x < 0) ?xs)"
    using sum_list_negatives [of ?xs] by simp
  have split: "sum_list (filter (\<lambda>x. 0 < x) ?xs) - \<bar>sum_list (filter (\<lambda>x. x < 0) ?xs)\<bar>
                 = sum_list ?xs"
    using sum_list_by_sign [of ?xs] by (simp add: neg)
  have general: "show_summary self2 =
           Summary
             (py_sum (filter (\<lambda>x. 0 < x) (map amount (transactions self2))))
             \<bar>py_sum (filter (\<lambda>x. x < 0) (map amount (transactions self2)))\<bar>
             (py_sum (filter (\<lambda>x. 0 < x) (map amount (transactions self2)))
                - \<bar>py_sum (filter (\<lambda>x. x < 0) (map amount (transactions self2)))\<bar>)
             (if 0 < py_sum (filter (\<lambda>x. 0 < x) (map amount (transactions self2)))
                    - \<bar>py_sum (filter (\<lambda>x. x < 0) (map amount (transactions self2)))\<bar>
              then PositiveBalance
              else if py_sum (filter (\<lambda>x. 0 < x) (map amount (transactions self2)))
                    - \<bar>py_sum (filter (\<lambda>x. x < 0) (map amount (transactions self2)))\<bar> = 0
              then BreakEven else NegativeBalance)"
    using assms(2) by (simp add: show_summary_def Let_def filter_map comp_def)
  obtain st where exact: "show_summary self =
           Summary
             (sum_list (filter (\<lambda>x. 0 < x) ?xs))
             \<bar>sum_list (filter (\<lambda>x. x < 0) ?xs)\<bar>
             (sum_list (filter (\<lambda>x. 0 < x) ?xs) - \<bar>sum_list (filter (\<lambda>x. x < 0) ?xs)\<bar>)
             st"
    using assms(1) by (simp add: show_summary_def Let_def filter_map comp_def py_sum_sum_list)
  have "show_summary self \<noteq> NoTransactionsToSummarize \<and>
         total_income (show_summary self) = sum_list (filter (\<lambda>x. 0 < x) ?xs) \<and>
         total_expenses (show_summary self) = \<bar>sum_list (filter (\<lambda>x. x < 0) ?xs)\<bar> \<and>
         balance (show_summary self)
           = total_income (show_summary self) - total_expenses (show_summary self) \<and>
         balance (show_summary self) = sum_list ?xs"
    by (simp add: exact split)
  with general show ?thesis
    by blast
qed

text \<open>
  The scenario of the specification: a coffee for 4.50 and a paycheck of 2000.00, as
  floats and as exact numbers.
\<close>

theorem show_summary_totals_witness:
  "show_summary \<lparr>transactions =
      [\<lparr>id' = 1, date = ''2024-03-01 09:30:00'', description = ''Coffee'',
        amount = Double (- 9) (- 1), type' = ''expense''\<rparr>,
       \<lparr>id' = 2, date = ''2024-03-01 09:31:00'', description = ''Paycheck'',
        amount = Double 125 4, type' = ''income''\<rparr>]\<rparr>
     = Summary (Double 125 4) (Double 9 (- 1)) (Double 3991 (- 1)) PositiveBalance \<and>
   total_income (show_summary \<lparr>transactions =
      [\<lparr>id' = 1, date = ''2024-03-01 09:30:00'', description = ''Coffee'',
        amount = - 4.5 :: real, type' = ''expense''\<rparr>,
       \<lparr>id' = 2, date = ''2024-03-01 09:31:00'', description = ''Paycheck'',
        amount = 2000, type' = ''income''\<rparr>]\<rparr>) = 2000 \<and>
   total_expenses (show_summary \<lparr>transactions =
      [\<lparr>id' = 1, date = ''2024-03-01 09:30:00'', description = ''Coffee'',
        amount = - 4.5 :: real, type' = ''expense''\<rparr>,
       \<lparr>id' = 2, date = ''2024-03-01 09:31:00'', description = ''Paycheck'',
        amount = 2000, type' = ''income''\<rparr>]\<rparr>) = 4.5 \<and>
   balance (show_summary \<lparr>transactions =
      [\<lparr>id' = 1, date = ''2024-03-01 09:30:00'', description = ''Coffee'',
        amount = - 4.5 :: real, type' = ''expense''\<rparr>,
       \<lparr>id' = 2, date = ''2024-03-01 09:31:00'', description = ''Paycheck'',
        amount = 2000, type' = ''income''\<rparr>]\<rparr>) = 1995.5"
proof -
  let ?exact = "\<lparr>transactions =
      [\<lparr>id' = 1, date = ''2024-03-01 09:30:00'', description = ''Coffee'',
        amount = - 4.5 :: real, type' = ''expense''\<rparr>,
       \<lparr>id' = 2, date = ''2024-03-01 09:31:00'', description = ''Paycheck'',
        amount = 2000, type' = ''income''\<rparr>]\<rparr>"
  let ?floats = "\<lparr>transactions =
      [\<lparr>id' = 1, date = ''2024-03-01 09:30:00'', description = ''Coffee'',
        amount = Double (- 9) (- 1), type' = ''expense''\<rparr>,
       \<lparr>id' = 2, date = ''2024-03-01 09:31:00'', description = ''Paycheck'',
        amount = Double 125 4, type' = ''income''\<rparr>]\<rparr>"
  have nonempty: "transactions ?exact \<noteq> []" "transactions ?floats \<noteq> []"
    by simp_all
  note totals = show_summary_totals [OF nonempty]
  have floats: "show_summary ?floats
      = Summary (Double 125 4) (Double 9 (- 1)) (Double 3991 (- 1)) PositiveBalance"
    by code_simp
  from totals have "total_income (show_summary ?exact) = 2000"
    and "total_expenses (show_summary ?exact) = 4.5"
    and "balance (show_summary ?exact) = 1995.5"
    by simp_all
  with floats show ?thesis
    by blast
qed

text \<open>
  Claim C1 as stated fails twice. On the empty list \<open>show_summary\<close> leaves at line 110
  and computes no total. And on floats the balance need not be the sum of all amounts:
  for the amounts 1e16, -1e16 and 1.0 the income is \<open>1e16 + 1.0\<close>, which rounds to 1e16,
  the expenses are 1e16 and the balance is 0.0 (the status printed is the break even),
  while adding the three amounts in their order gives 1.0. (With the compensated
  summation of newer interpreters the values are the same, by
  \<open>py_sum_compensated_floats\<close>: the compensation of the income is 1.0 and
  \<open>1e16 + 1.0\<close> still rounds to 1e16.)
\<close>

theorem show_summary_counterexample:
  "show_summary \<lparr>transactions = ([] :: double transaction list)\<rparr> = NoTransactionsToSummarize \<and>
   show_summary \<lparr>transactions =
     [\<lparr>id' = 1, date = ''2024-03-01 09:30:00'', description = ''Sale'',
       amount = Double 152587890625 16, type' = ''income''\<rparr>,
      \<lparr>id' = 2, date = ''2024-03-01 09:31:00'', description = ''Purchase'',
       amount = Double (- 152587890625) 16, type' = ''expense''\<rparr>,
      \<lparr>id' = 3, date = ''2024-03-01 09:32:00'', description = ''Tip'',
       amount = Double 1 0, type' = ''income''\<rparr>]\<rparr>
     = Summary (Double 152587890625 16) (Double 152587890625 16) (Double 0 0) BreakEven \<and>
   py_sum (map amount
     [\<lparr>id' = 1, date = ''2024-03-01 09:30:00'', description = ''Sale'',
       amount = Double 152587890625 16, type' = ''income''\<rparr>,
      \<lparr>id' = 2, date = ''2024-03-01 09:31:00'', description = ''Purchase'',
       amount = Double (- 152587890625) 16, type' = ''expense''\<rparr>,
      \<lparr>id' = 3, date = ''2024-03-01 09:32:00'', description = ''Tip'',
       amount = Double 1 0, type' = ''income''\<rparr>]) = Double 1 0 \<and>
   balance (show_summary \<lparr>transactions =
     [\<lparr>id' = 1, date = ''2024-03-01 09:30:00'', description = ''Sale'',
       amount = Double 152587890625 16, type' = ''income''\<rparr>,
      \<lparr>id' = 2, date = ''2024-03-01 09:31:00'', description = ''Purchase'',
       amount = Double (- 152587890625) 16, type' = ''expense''\<rparr>,
      \<lparr>id' = 3, date = ''2024-03-01 09:32:00'', description = ''Tip'',
       amount = Double 1 0, type' = ''income''\<rparr>]\<rparr>)
     \<noteq> py_sum (map amount
     [\<lparr>id' = 1, date = ''2024-03-01 09:30:00'', description = ''Sale'',
       amount = Double 152587890625 16, type' = ''income''\<rparr>,
      \<lparr>id' = 2, date = ''2024-03-01 09:31:00'', description = ''Purchase'',
       amount = Double (- 152587890625) 16, type' = ''expense''\<rparr>,
      \<lparr>id' = 3, date = ''2024-03-01 09:32:00'', description = ''Tip'',
       amount = Double 1 0, type' = ''income''\<rparr>])"
  by code_simp

subsection \<open>The empty list\<close>

text \<open>
  Claim C5, as amended. On the empty list \<open>show_transactions\<close> prints no row, only the
  notice that no transactions were found, and \<open>show_summary\<close> prints the notice that
  there is nothing to summarize and no totals. Neither raises: both return their notice.
\<close>

theorem empty_list_notices:
  "show_transactions fmt2 \<lparr>transactions = []\<rparr> = NoTransactionsFound \<and>
   show_summary \<lparr>transactions = []\<rparr> = NoTransactionsToSummarize"
  by (simp add: show_transactions_def show_summary_def)

text \<open>
  Claim C5 as stated fails in its second half: the guard of lines 108-110 returns before
  the totals of lines 112-114, so no summary of three zeros is produced.
\<close>

theorem empty_summary_counterexample:
  "show_summary \<lparr>transactions = ([] :: double transaction list)\<rparr> = NoTransactionsToSummarize \<and>
   show_summary \<lparr>transactions = ([] :: double transaction list)\<rparr> \<noteq> Summary 0 0 0 BreakEven"
  by (simp add: show_summary_def)

subsection \<open>The label and the sign\<close>

text \<open>
  Claim C3, as amended. For every append of an amount above zero: choice 2 stores the
  negated amount under the label expense, so the stored amount is at most zero, and
  choice 1 stores the amount as typed under the label income, so it is at least zero.
  Hence \<open>add_transaction\<close> keeps the agreement of label and sign in the list;
  \<open>save_data\<close> and \<open>export_to_csv\<close> leave the object as it was (the two displays only
  read it); and \<open>load_data\<close> puts the records of the file in the place of the list
  without looking at them, so it keeps the agreement when the records it decodes have it.
\<close>

theorem positive_append_keeps_kind_agreement:
  fixes a :: "'a::ordered_ab_group_add"
  assumes "read_amount float ins1 = Inr (a, ins2)"
    and "0 < a"
    and "read_choice a ins2 = Inr ((k, a'), ins3)"
  shows "(k = ''expense'' \<and> a' = - a \<and> a' \<le> 0 \<or> k = ''income'' \<and> a' = a \<and> 0 \<le> a') \<and>
         (\<exists>self' w' report.
            add_transaction float json_dump now (line # ins1) self w = Inr (self', w', report, ins3) \<and>
            amount (last (transactions self')) = a' \<and>
            type' (last (transactions self')) = k \<and>
            (list_all kind_agrees (transactions self) \<longrightarrow> list_all kind_agrees (transactions self'))) \<and>
         fst (snd (save_data json_dump self w)) = self \<and>
         fst (snd (export_to_csv str_amount stamp self w)) = self \<and>
         (list_all kind_agrees (transactions self) \<and>
          (\<forall>text ts. files w DATA_FILE = Some text \<and> json_load text = Some ts
             \<longrightarrow> list_all kind_agrees ts)
          \<longrightarrow> list_all kind_agrees (transactions (snd (load_data json_load w self))))"
proof -
  have sign: "k = ''expense'' \<and> a' = - a \<and> a' \<le> 0 \<or> k = ''income'' \<and> a' = a \<and> 0 \<le> a'"
    using read_choice_result [OF assms(3)] assms(2) by auto
  then have new: "kind_agrees \<lparr>id' = i, date = now, description = d, amount = a', type' = k\<rparr>" for i d
    by (auto simp: kind_agrees_def)
  have append: "\<exists>self' w' report.
            add_transaction float json_dump now (line # ins1) self w = Inr (self', w', report, ins3) \<and>
            amount (last (transactions self')) = a' \<and>
            type' (last (transactions self')) = k \<and>
            (list_all kind_agrees (transactions self) \<longrightarrow> list_all kind_agrees (transactions self'))"
    by (simp add: add_transaction_valid [OF assms(1) assms(3)] save_data_result new)
  have load: "list_all kind_agrees (transactions self) \<and>
          (\<forall>text ts. files w DATA_FILE = Some text \<and> json_load text = Some ts
             \<longrightarrow> list_all kind_agrees ts)
          \<longrightarrow> list_all kind_agrees (transactions (snd (load_data json_load w self)))"
    by (auto simp: load_data_result split: option.splits)
  show ?thesis
    using sign append load by (simp add: save_data_result export_to_csv_self)
qed

text \<open>An expense of 4.50 added to a list that holds a paycheck, and that list loaded again.\<close>

theorem positive_append_keeps_kind_agreement_witness:
  "(\<exists>self' w' report.
      add_transaction (\<lambda>s. if s = ''4.50'' then Some (4.5 :: real) else None) (\<lambda>ts. ''[...]'')
        ''2024-03-01 09:30:00'' [''Coffee'', ''4.50'', ''2'']
        \<lparr>transactions = [\<lparr>id' = 1, date = ''2024-02-28 18:00:00'', description = ''Paycheck'',
                           amount = 2000, type' = ''income''\<rparr>]\<rparr>
        \<lparr>files = [DATA_FILE \<mapsto> ''[...]''], denied = (\<lambda>p. False), unreadable = (\<lambda>p. False)\<rparr>
        = Inr (self', w', report, []) \<and>
      amount (last (transactions self')) = - 4.5 \<and>
      type' (last (transactions self')) = ''expense'' \<and>
      list_all kind_agrees (transactions self')) \<and>
   list_all kind_agrees (transactions (snd (load_data
      (\<lambda>text. Some [\<lparr>id' = 1, date = ''2024-02-28 18:00:00'', description = ''Paycheck'',
                       amount = 2000 :: real, type' = ''income''\<rparr>])
      \<lparr>files = [DATA_FILE \<mapsto> ''[...]''], denied = (\<lambda>p. False), unreadable = (\<lambda>p. False)\<rparr>
      \<lparr>transactions = [\<lparr>id' = 1, date = ''2024-02-28 18:00:00'', description = ''Paycheck'',
                         amount = 2000, type' = ''income''\<rparr>]\<rparr>)))"
proof -
  let ?float = "\<lambda>s. if s = ''4.50'' then Some (4.5 :: real) else None"
  let ?self = "\<lparr>transactions = [\<lparr>id' = 1, date = ''2024-02-28 18:00:00'', description = ''Paycheck'',
                           amount = 2000 :: real, type' = ''income''\<rparr>]\<rparr>"
  let ?w = "\<lparr>files = [DATA_FILE \<mapsto> ''[...]''], denied = (\<lambda>p. False), unreadable = (\<lambda>p. False)\<rparr>"
  let ?load = "\<lambda>text :: string. Some [\<lparr>id' = 1, date = ''2024-02-28 18:00:00'', description = ''Paycheck'',
                       amount = 2000 :: real, type' = ''income''\<rparr>]"
  have amount_read: "read_amount ?float [''4.50'', ''2''] = Inr (4.5, [''2''])"
    by simp
  have positive: "(0 :: real) < 4.5"
    by simp
  have choice_read: "read_choice (4.5 :: real) [''2''] = Inr ((''expense'', - 4.5), [])"
    by (simp add: strip_def isspace_def)
  have before: "list_all kind_agrees (transactions ?self)"
    by (simp add: kind_agrees_def)
  have stored: "\<forall>text ts. files ?w DATA_FILE = Some text \<and> ?load text = Some ts
                  \<longrightarrow> list_all kind_agrees ts"
    by (auto simp: kind_agrees_def)
  note kept = positive_append_keeps_kind_agreement [OF amount_read positive choice_read,
      where self = ?self and w = ?w and json_load = ?load and json_dump = "\<lambda>ts. ''[...]''"
        and now = "''2024-03-01 09:30:00''" and line = "''Coffee''"]
  from kept before have "\<exists>self' w' report.
      add_transaction ?float (\<lambda>ts. ''[...]'') ''2024-03-01 09:30:00'' [''Coffee'', ''4.50'', ''2'']
        ?self ?w = Inr (self', w', report, []) \<and>
      amount (last (transactions self')) = - 4.5 \<and>
      type' (last (transactions self')) = ''expense'' \<and>
      list_all kind_agrees (transactions self')"
    by blast
  moreover from kept before stored
  have "list_all kind_agrees (transactions (snd (load_data ?load ?w ?self)))"
    by blast
  ultimately show ?thesis
    by blast
qed

text \<open>
  Claim C3 as stated fails for \<open>load_data\<close>: a file whose record is labelled income with
  the amount -5 is loaded as it stands, into a list that satisfied the agreement before.
\<close>

theorem load_data_kind_counterexample:
  "list_all kind_agrees (transactions \<lparr>transactions = ([] :: real transaction list)\<rparr>) \<and>
   load_data
     (\<lambda>text. if text = ''[{id: 1, date: 2024-03-01 09:30:00, description: Refund, amount: -5, type: income}]''
             then Some [\<lparr>id' = 1, date = ''2024-03-01 09:30:00'', description = ''Refund'',
                         amount = - 5, type' = ''income''\<rparr>]
             else None)
     \<lparr>files = [DATA_FILE \<mapsto>
        ''[{id: 1, date: 2024-03-01 09:30:00, description: Refund, amount: -5, type: income}]''],
      denied = (\<lambda>p. False), unreadable = (\<lambda>p. False)\<rparr>
     \<lparr>transactions = ([] :: real transaction list)\<rparr>
     = (Loaded 1, \<lparr>transactions = [\<lparr>id' = 1, date = ''2024-03-01 09:30:00'',
                      description = ''Refund'', amount = - 5, type' = ''income''\<rparr>]\<rparr>) \<and>
   \<not> list_all kind_agrees
       [\<lparr>id' = 1, date = ''2024-03-01 09:30:00'', description = ''Refund'',
         amount = - 5 :: real, type' = ''income''\<rparr>]"
  by (simp add: load_data_result kind_agrees_def)

subsection \<open>The file\<close>




text \<open>
  Claim C6, as amended. When the file is there and \<open>open\<close> raises, or the decoder raises
  on its text, or the value decoded has no length (a number, a boolean, \<open>null\<close>),
  \<open>__init__\<close> reports an error of loading and the attribute is the empty list; the next
  \<open>add_transaction\<close> that gets an amount and a choice returns normally and leaves a list of
  one transaction, with the id 1. When the file is not there the attribute is the empty
  list and the report is the notice that no file was found, not an error. Every other
  file, whatever it holds, is loaded as it is: the value decoded becomes the attribute
  and its length is reported (last conjunct).
\<close>

theorem failed_load_starts_empty:
  assumes "files w DATA_FILE = Some text"
    and "unreadable w DATA_FILE \<or> json_load text = None \<or>
         (\<exists>v. json_load text = Some v \<and> py_len v = Inl TypeError)"
    and "read_amount float ins1 = Inr (a, ins2)"
    and "read_choice a ins2 = Inr ((k, a'), ins3)"
  shows "(\<exists>e. init_json json_load w = (ErrorLoading e, JArray [])) \<and>
         (\<exists>w' report.
            add_transaction_json float json_dump now (line # ins1) (snd (init_json json_load w)) w
              = Inr (JArray [JObject [(''id'', JInt 1),
                                      (''date'', JString now),
                                      (''description'', JString (strip line)),
                                      (''amount'', JFloat a'),
                                      (''type'', JString k)]],
                     w', report, ins3)) \<and>
         (files w0 DATA_FILE = None \<longrightarrow> init_json json_load w0 = (NoDataFile, JArray [])) \<and>
         (files w1 DATA_FILE = Some text1 \<and> \<not> unreadable w1 DATA_FILE \<and>
          json_load text1 = Some v1 \<and> py_len v1 = Inr n
            \<longrightarrow> init_json json_load w1 = (Loaded n, v1))"
proof -
  have failed: "\<exists>e. init_json json_load w = (ErrorLoading e, JArray [])"
    using assms(1,2) by (auto simp: init_json_def load_data_json_result)
  then have empty: "snd (init_json json_load w) = JArray []"
    by auto
  have append: "\<exists>w' report.
            add_transaction_json float json_dump now (line # ins1) (snd (init_json json_load w)) w
              = Inr (JArray [JObject [(''id'', JInt 1),
                                      (''date'', JString now),
                                      (''description'', JString (strip line)),
                                      (''amount'', JFloat a'),
                                      (''type'', JString k)]],
                     w', report, ins3)"
    by (simp add: empty add_transaction_json_valid [OF assms(3,4)] save_data_json_result)
  have absent: "files w0 DATA_FILE = None \<longrightarrow> init_json json_load w0 = (NoDataFile, JArray [])"
    by (simp add: init_json_def load_data_json_result)
  have loaded: "files w1 DATA_FILE = Some text1 \<and> \<not> unreadable w1 DATA_FILE \<and>
          json_load text1 = Some v1 \<and> py_len v1 = Inr n
            \<longrightarrow> init_json json_load w1 = (Loaded n, v1)"
    by (simp add: init_json_def load_data_json_result)
  show ?thesis
    using failed append absent loaded by blast
qed

text \<open>
  A file cut off in the middle of a record, no file at all, and a file that holds the
  empty list.
\<close>

theorem failed_load_starts_empty_witness:
  \<open>(\<exists>e. init_json
          (\<lambda>text. if text = ''[]'' then Some (JArray []) else
                   if text = ''42'' then Some (JInt 42) else None)
          \<lparr>files = [DATA_FILE \<mapsto> ''[{"id": 1, "da''], denied = (\<lambda>p. False),
            unreadable = (\<lambda>p. False)\<rparr>
        = (ErrorLoading e, JArray ([] :: double json list))) \<and>
   (\<exists>w' report.
      add_transaction_json (\<lambda>s. if s = ''4.50'' then Some (Double 9 (- 1)) else None)
        (\<lambda>v. ''[...]'') ''2024-03-01 09:30:00'' [''Coffee'', ''4.50'', ''2'']
        (snd (init_json
           (\<lambda>text. if text = ''[]'' then Some (JArray []) else
                    if text = ''42'' then Some (JInt 42) else None)
           \<lparr>files = [DATA_FILE \<mapsto> ''[{"id": 1, "da''], denied = (\<lambda>p. False),
             unreadable = (\<lambda>p. False)\<rparr>))
        \<lparr>files = [DATA_FILE \<mapsto> ''[{"id": 1, "da''], denied = (\<lambda>p. False),
          unreadable = (\<lambda>p. False)\<rparr>
        = Inr (JArray [JObject [(''id'', JInt 1),
                                (''date'', JString ''2024-03-01 09:30:00''),
                                (''description'', JString ''Coffee''),
                                (''amount'', JFloat (Double (- 9) (- 1))),
                                (''type'', JString ''expense'')]],
               w', report, [])) \<and>
   init_json
     (\<lambda>text. if text = ''[]'' then Some (JArray []) else
              if text = ''42'' then Some (JInt 42) else None)
     \<lparr>files = Map.empty, denied = (\<lambda>p. False), unreadable = (\<lambda>p. False)\<rparr>
     = (NoDataFile, JArray ([] :: double json list)) \<and>
   init_json
     (\<lambda>text. if text = ''[]'' then Some (JArray []) else
              if text = ''42'' then Some (JInt 42) else None)
     \<lparr>files = [DATA_FILE \<mapsto> ''[]''], denied = (\<lambda>p. False), unreadable = (\<lambda>p. False)\<rparr>
     = (Loaded 0, JArray ([] :: double json list))\<close>
proof -
  let ?load = \<open>\<lambda>text. if text = ''[]'' then Some (JArray ([] :: double json list)) else
                      if text = ''42'' then Some (JInt 42) else None\<close>
  let ?float = "\<lambda>s. if s = ''4.50'' then Some (Double 9 (- 1)) else None"
  let ?dump = "\<lambda>v :: double json. ''[...]''"
  let ?cut = \<open>\<lparr>files = [DATA_FILE \<mapsto> ''[{"id": 1, "da''], denied = (\<lambda>p. False),
               unreadable = (\<lambda>p. False)\<rparr>\<close>
  let ?absent = "\<lparr>files = Map.empty, denied = (\<lambda>p. False), unreadable = (\<lambda>p. False)\<rparr>"
  let ?fresh = "\<lparr>files = [DATA_FILE \<mapsto> ''[]''], denied = (\<lambda>p. False), unreadable = (\<lambda>p. False)\<rparr>"
  have present: \<open>files ?cut DATA_FILE = Some ''[{"id": 1, "da''\<close>
    by simp
  have broken: \<open>unreadable ?cut DATA_FILE \<or> ?load ''[{"id": 1, "da'' = None \<or>
      (\<exists>v. ?load ''[{"id": 1, "da'' = Some v \<and> py_len v = Inl TypeError)\<close>
    by simp
  have amount_read: "read_amount ?float [''4.50'', ''2''] = Inr (Double 9 (- 1), [''2''])"
    by simp
  have choice_read: "read_choice (Double 9 (- 1)) [''2''] = Inr ((''expense'', Double (- 9) (- 1)), [])"
    by (simp add: strip_def isspace_def uminus_double_def)
  have absent: "files ?absent DATA_FILE = None"
    by simp
  have fresh: "files ?fresh DATA_FILE = Some ''[]'' \<and> \<not> unreadable ?fresh DATA_FILE \<and>
      ?load ''[]'' = Some (JArray []) \<and> py_len (JArray ([] :: double json list)) = Inr 0"
    by simp
  have stripped: "strip ''Coffee'' = ''Coffee''"
    by (simp add: strip_def isspace_def)
  from failed_load_starts_empty [where json_load = ?load and float = ?float and json_dump = ?dump
      and now = "''2024-03-01 09:30:00''" and line = "''Coffee''" and ?w0.0 = ?absent
      and ?w1.0 = ?fresh and ?text1.0 = "''[]''" and ?v1.0 = "JArray []" and n = 0,
      OF present broken amount_read choice_read] absent fresh stripped
  show ?thesis
    by simp
qed

text \<open>A file that holds a number: \<open>len\<close> raises inside the \<open>try\<close> and the list is reset.\<close>

lemma unsized_store_resets:
  "init_json (\<lambda>text. if text = ''42'' then Some (JInt 42) else None)
     \<lparr>files = [DATA_FILE \<mapsto> ''42''], denied = (\<lambda>p. False), unreadable = (\<lambda>p. False)\<rparr>
     = (ErrorLoading TypeError, JArray ([] :: double json list))"
  by (simp add: init_json_def load_data_json_result)

text \<open>
  Claim C6 as stated fails for a corrupted file that still decodes: a file that holds a
  JSON object with one key is reported as one transaction loaded, the attribute is that
  dictionary, not an empty list, and the next \<open>add_transaction\<close> raises AttributeError at
  line 78, since a dictionary has no \<open>append\<close>.
\<close>

theorem loaded_object_counterexample:
  \<open>init_json
     (\<lambda>text. if text = ''{"a": 1}'' then Some (JObject [(''a'', JInt 1)]) else None)
     \<lparr>files = [DATA_FILE \<mapsto> ''{"a": 1}''], denied = (\<lambda>p. False), unreadable = (\<lambda>p. False)\<rparr>
     = (Loaded 1, JObject [(''a'', JInt 1) :: string \<times> double json]) \<and>
   add_transaction_json (\<lambda>s. if s = ''4.50'' then Some (Double 9 (- 1)) else None) (\<lambda>v. ''[...]'')
     ''2024-03-01 09:30:00'' [''Coffee'', ''4.50'', ''2'']
     (snd (init_json
        (\<lambda>text. if text = ''{"a": 1}'' then Some (JObject [(''a'', JInt 1)]) else None)
        \<lparr>files = [DATA_FILE \<mapsto> ''{"a": 1}''], denied = (\<lambda>p. False), unreadable = (\<lambda>p. False)\<rparr>))
     \<lparr>files = [DATA_FILE \<mapsto> ''{"a": 1}''], denied = (\<lambda>p. False), unreadable = (\<lambda>p. False)\<rparr>
     = Inl AttributeError\<close>
  by (simp add: init_json_def load_data_json_result add_transaction_json_def strip_def isspace_def
      uminus_double_def)

text \<open>
  Claim C7. For every state: when \<open>save_data\<close> reports an error of saving, the object
  and the files are exactly as they were, so a later \<open>save_data\<close> that succeeds writes
  the encoding of the full list. The same holds for the save at the end of
  \<open>add_transaction\<close>: when it fails, the method still returns normally and the new
  transaction stays in the list (last conjunct).
\<close>

theorem failed_save_keeps_memory:
  assumes "save_data json_dump self w = (ErrorSaving e, self1, w1)"
    and "save_data json_dump self1 w2 = (DataSaved, self2, w3)"
  shows "self1 = self \<and> w1 = w \<and> self2 = self \<and>
         files w3 DATA_FILE = Some (json_dump (transactions self)) \<and>
         (read_amount float ins1 = Inr (a, ins2) \<and> read_choice a ins2 = Inr ((k, a'), ins3) \<longrightarrow>
            add_transaction float json_dump now (line # ins1) self w =
              Inr (self\<lparr>transactions := transactions self @
                          [\<lparr>id' = int (length (transactions self)) + 1, date = now,
                            description = strip line, amount = a', type' = k\<rparr>]\<rparr>,
                   w, ErrorSaving OSError, ins3))"
proof -
  have denied: "denied w DATA_FILE"
    using assms(1) by (auto simp: save_data_result split: if_splits)
  have first: "self1 = self \<and> w1 = w"
    using assms(1) by (auto simp: save_data_result split: if_splits)
  then have second: "self2 = self \<and> files w3 DATA_FILE = Some (json_dump (transactions self))"
    using assms(2) by (auto simp: save_data_result split: if_splits)
  have append: "read_amount float ins1 = Inr (a, ins2) \<and> read_choice a ins2 = Inr ((k, a'), ins3) \<longrightarrow>
            add_transaction float json_dump now (line # ins1) self w =
              Inr (self\<lparr>transactions := transactions self @
                          [\<lparr>id' = int (length (transactions self)) + 1, date = now,
                            description = strip line, amount = a', type' = k\<rparr>]\<rparr>,
                   w, ErrorSaving OSError, ins3)"
    using denied by (auto simp: add_transaction_valid save_data_result)
  show ?thesis
    using first second append by blast
qed

text \<open>
  A file that cannot be opened: the save fails and so does the save after adding the
  paycheck, which stays in memory; once the file can be opened the save succeeds.
\<close>

theorem failed_save_keeps_memory_witness:
  "save_data (\<lambda>ts. if ts = [] then ''[]'' else ''[coffee]'')
     \<lparr>transactions = [\<lparr>id' = 1, date = ''2024-03-01 09:30:00'', description = ''Coffee'',
                        amount = Double (- 9) (- 1), type' = ''expense''\<rparr>]\<rparr>
     \<lparr>files = [DATA_FILE \<mapsto> ''[]''], denied = (\<lambda>p. p = DATA_FILE), unreadable = (\<lambda>p. False)\<rparr>
     = (ErrorSaving OSError,
        \<lparr>transactions = [\<lparr>id' = 1, date = ''2024-03-01 09:30:00'', description = ''Coffee'',
                        amount = Double (- 9) (- 1), type' = ''expense''\<rparr>]\<rparr>,
        \<lparr>files = [DATA_FILE \<mapsto> ''[]''], denied = (\<lambda>p. p = DATA_FILE), unreadable = (\<lambda>p. False)\<rparr>) \<and>
   save_data (\<lambda>ts. if ts = [] then ''[]'' else ''[coffee]'')
     \<lparr>transactions = [\<lparr>id' = 1, date = ''2024-03-01 09:30:00'', description = ''Coffee'',
                        amount = Double (- 9) (- 1), type' = ''expense''\<rparr>]\<rparr>
     \<lparr>files = [DATA_FILE \<mapsto> ''[]''], denied = (\<lambda>p. False), unreadable = (\<lambda>p. False)\<rparr>
     = (DataSaved,
        \<lparr>transactions = [\<lparr>id' = 1, date = ''2024-03-01 09:30:00'', description = ''Coffee'',
                        amount = Double (- 9) (- 1), type' = ''expense''\<rparr>]\<rparr>,
        \<lparr>files = [DATA_FILE \<mapsto> ''[coffee]''], denied = (\<lambda>p. False), unreadable = (\<lambda>p. False)\<rparr>) \<and>
   add_transaction (\<lambda>s. if s = ''2000'' then Some (Double 125 4) else None)
     (\<lambda>ts. if ts = [] then ''[]'' else ''[coffee]'') ''2024-03-01 09:31:00''
     [''Paycheck'', ''2000'', ''1'']
     \<lparr>transactions = [\<lparr>id' = 1, date = ''2024-03-01 09:30:00'', description = ''Coffee'',
                        amount = Double (- 9) (- 1), type' = ''expense''\<rparr>]\<rparr>
     \<lparr>files = [DATA_FILE \<mapsto> ''[]''], denied = (\<lambda>p. p = DATA_FILE), unreadable = (\<lambda>p. False)\<rparr>
     = Inr (\<lparr>transactions = [\<lparr>id' = 1, date = ''2024-03-01 09:30:00'', description = ''Coffee'',
                        amount = Double (- 9) (- 1), type' = ''expense''\<rparr>,
                      \<lparr>id' = 2, date = ''2024-03-01 09:31:00'', description = ''Paycheck'',
                        amount = Double 125 4, type' = ''income''\<rparr>]\<rparr>,
            \<lparr>files = [DATA_FILE \<mapsto> ''[]''], denied = (\<lambda>p. p = DATA_FILE), unreadable = (\<lambda>p. False)\<rparr>,
            ErrorSaving OSError, [])"
proof -
  let ?self = "\<lparr>transactions = [\<lparr>id' = 1, date = ''2024-03-01 09:30:00'', description = ''Coffee'',
                        amount = Double (- 9) (- 1), type' = ''expense''\<rparr>]\<rparr>"
  let ?dump = "\<lambda>ts :: double transaction list. if ts = [] then ''[]'' else ''[coffee]''"
  let ?float = "\<lambda>s. if s = ''2000'' then Some (Double 125 4) else None"
  let ?locked = "\<lparr>files = [DATA_FILE \<mapsto> ''[]''], denied = (\<lambda>p. p = DATA_FILE), unreadable = (\<lambda>p. False)\<rparr>"
  let ?free = "\<lparr>files = [DATA_FILE \<mapsto> ''[]''], denied = (\<lambda>p. False), unreadable = (\<lambda>p. False)\<rparr>"
  have failed: "save_data ?dump ?self ?locked = (ErrorSaving OSError, ?self, ?locked)"
    by (simp add: save_data_result)
  have later: "save_data ?dump ?self ?free
      = (DataSaved, ?self, \<lparr>files = [DATA_FILE \<mapsto> ''[coffee]''], denied = (\<lambda>p. False), unreadable = (\<lambda>p. False)\<rparr>)"
    by (simp add: save_data_result)
  have amount_read: "read_amount ?float [''2000'', ''1''] = Inr (Double 125 4, [''1''])"
    by simp
  have choice_read: "read_choice (Double 125 4) [''1''] = Inr ((''income'', Double 125 4), [])"
    by (simp add: strip_def isspace_def)
  have appended: "add_transaction ?float ?dump ''2024-03-01 09:31:00'' [''Paycheck'', ''2000'', ''1'']
      ?self ?locked
      = Inr (\<lparr>transactions = [\<lparr>id' = 1, date = ''2024-03-01 09:30:00'', description = ''Coffee'',
                        amount = Double (- 9) (- 1), type' = ''expense''\<rparr>,
                      \<lparr>id' = 2, date = ''2024-03-01 09:31:00'', description = ''Paycheck'',
                        amount = Double 125 4, type' = ''income''\<rparr>]\<rparr>,
            ?locked, ErrorSaving OSError, [])"
    using failed_save_keeps_memory [where json_dump = ?dump and float = ?float
        and now = "''2024-03-01 09:31:00''" and line = "''Paycheck''"
        and ?ins1.0 = "[''2000'', ''1'']" and a = "Double 125 4" and ?ins2.0 = "[''1'']"
        and k = "''income''" and a' = "Double 125 4" and ?ins3.0 = "[]", OF failed later]
      amount_read choice_read
    by (simp add: strip_def isspace_def)
  from failed later appended show ?thesis
    by (intro conjI)
qed

subsection \<open>The export\<close>

text \<open>
  Claim C8. For every list that is not empty, when the file of the export can be
  opened, its text is the header row \<open>ID,Date,Description,Amount,Type\<close> followed by one
  row for each transaction, in the order of the list, each row being the id, the date,
  the description, the amount and the type joined by commas and ended by a line feed.
  Nothing is quoted or escaped: the rows are those of \<open>export_rows_spec\<close>, which copies
  each value as it is.
\<close>

theorem export_to_csv_artifact:
  assumes "transactions self \<noteq> []"
    and "\<not> denied w (''finances_export_'' @ stamp @ ''.csv'')"
  shows "\<exists>w'. export_to_csv str_amount stamp self w
                 = (Exported (''finances_export_'' @ stamp @ ''.csv''), self, w') \<and>
              files w' (''finances_export_'' @ stamp @ ''.csv'')
                 = Some (concat (map (\<lambda>row. row @ newline)
                                  (export_rows_spec str_amount (transactions self)))) \<and>
              length (export_rows_spec str_amount (transactions self))
                 = length (transactions self) + 1"
  using assms
  by (simp add: export_to_csv_def open_write_def Let_def foldl_append_concat
      export_rows_spec_def csv_line_comma_join comp_def del: comma_join.simps)

text \<open>
  Two transactions; the description of the first holds a comma, and its row has five
  commas.
\<close>

theorem export_to_csv_artifact_witness:
  "\<exists>w'. export_to_csv
           (\<lambda>x. if x = Double (- 9) (- 1) then ''-4.5'' else ''2000.0'') ''20240301_093200''
           \<lparr>transactions =
              [\<lparr>id' = 1, date = ''2024-03-01 09:30:00'', description = ''Coffee, large'',
                amount = Double (- 9) (- 1), type' = ''expense''\<rparr>,
               \<lparr>id' = 2, date = ''2024-03-01 09:31:00'', description = ''Paycheck'',
                amount = Double 125 4, type' = ''income''\<rparr>]\<rparr>
           \<lparr>files = Map.empty, denied = (\<lambda>p. False), unreadable = (\<lambda>p. False)\<rparr>
         = (Exported ''finances_export_20240301_093200.csv'',
            \<lparr>transactions =
              [\<lparr>id' = 1, date = ''2024-03-01 09:30:00'', description = ''Coffee, large'',
                amount = Double (- 9) (- 1), type' = ''expense''\<rparr>,
               \<lparr>id' = 2, date = ''2024-03-01 09:31:00'', description = ''Paycheck'',
                amount = Double 125 4, type' = ''income''\<rparr>]\<rparr>,
            w') \<and>
         files w' ''finances_export_20240301_093200.csv''
           = Some (''ID,Date,Description,Amount,Type'' @ newline @
                   ''1,2024-03-01 09:30:00,Coffee, large,-4.5,expense'' @ newline @
                   ''2,2024-03-01 09:31:00,Paycheck,2000.0,income'' @ newline)"
proof -
  let ?str = "\<lambda>x. if x = Double (- 9) (- 1) then ''-4.5'' else ''2000.0''"
  let ?self = "\<lparr>transactions =
              [\<lparr>id' = 1, date = ''2024-03-01 09:30:00'', description = ''Coffee, large'',
                amount = Double (- 9) (- 1), type' = ''expense''\<rparr>,
               \<lparr>id' = 2, date = ''2024-03-01 09:31:00'', description = ''Paycheck'',
                amount = Double 125 4, type' = ''income''\<rparr>]\<rparr>"
  let ?w = "\<lparr>files = Map.empty, denied = (\<lambda>p. False), unreadable = (\<lambda>p. False)\<rparr>"
  have nonempty: "transactions ?self \<noteq> []"
    by simp
  have allowed: "\<not> denied ?w (''finances_export_'' @ ''20240301_093200'' @ ''.csv'')"
    by simp
  have rows: "export_rows_spec ?str
         [\<lparr>id' = 1, date = ''2024-03-01 09:30:00'', description = ''Coffee, large'',
           amount = Double (- 9) (- 1), type' = ''expense''\<rparr>,
          \<lparr>id' = 2, date = ''2024-03-01 09:31:00'', description = ''Paycheck'',
           amount = Double 125 4, type' = ''income''\<rparr>]
      = [''ID,Date,Description,Amount,Type'',
         ''1,2024-03-01 09:30:00,Coffee, large,-4.5,expense'',
         ''2,2024-03-01 09:31:00,Paycheck,2000.0,income'']"
    by code_simp
  from export_to_csv_artifact [where str_amount = ?str and self = ?self and w = ?w,
      OF nonempty allowed]
  show ?thesis
    by (simp add: rows)
qed

subsection \<open>What is not checked\<close>

text \<open>
  Claim C9. \<open>add_transaction\<close> checks neither the description nor the sign of the
  amount. For every description typed, once an amount and a choice are accepted the
  method returns normally and stores the description as \<open>strip\<close> leaves it and the amount
  as the choice leaves it; this includes the description that is empty after \<open>strip\<close>,
  which is stored as the empty string. Whether the method raises does not depend on the
  description typed: the only exception is the end of the input (last conjunct).
\<close>

theorem add_transaction_accepts_any_description:
  assumes "read_amount float ins1 = Inr (a, ins2)"
    and "read_choice a ins2 = Inr ((k, a'), ins3)"
  shows "(\<exists>self' w' report.
            add_transaction float json_dump now (line # ins1) self w = Inr (self', w', report, ins3) \<and>
            description (last (transactions self')) = strip line \<and>
            amount (last (transactions self')) = a') \<and>
         (strip line = [] \<longrightarrow>
            (\<exists>self' w' report.
               add_transaction float json_dump now (line # ins1) self w = Inr (self', w', report, ins3) \<and>
               description (last (transactions self')) = [])) \<and>
         isl (add_transaction float json_dump now (line # ins) self w)
           = isl (add_transaction float json_dump now (line' # ins) self w)"
proof -
  have stored: "\<exists>self' w' report.
            add_transaction float json_dump now (line # ins1) self w = Inr (self', w', report, ins3) \<and>
            description (last (transactions self')) = strip line \<and>
            amount (last (transactions self')) = a'"
    by (simp add: add_transaction_valid [OF assms] save_data_result)
  have no_error_path: "isl (add_transaction float json_dump now (line # ins) self w)
           = isl (add_transaction float json_dump now (line' # ins) self w)"
    by (simp add: add_transaction_def Let_def split: sum.splits prod.splits)
  show ?thesis
    using stored no_error_path by auto
qed

text \<open>A description of three spaces, and an income of -5.\<close>

theorem add_transaction_accepts_any_description_witness:
  "\<exists>self' w' report.
     add_transaction (\<lambda>s. if s = ''-5'' then Some (- 5 :: real) else None) (\<lambda>ts. ''[...]'')
       ''2024-03-01 09:30:00'' [''   '', ''-5'', ''1'']
       \<lparr>transactions = []\<rparr> \<lparr>files = Map.empty, denied = (\<lambda>p. False), unreadable = (\<lambda>p. False)\<rparr>
       = Inr (self', w', report, []) \<and>
     description (last (transactions self')) = [] \<and>
     amount (last (transactions self')) = - 5"
proof -
  let ?float = "\<lambda>s. if s = ''-5'' then Some (- 5 :: real) else None"
  have amount_read: "read_amount ?float [''-5'', ''1''] = Inr (- 5, [''1''])"
    by simp
  have choice_read: "read_choice (- 5 :: real) [''1''] = Inr ((''income'', - 5), [])"
    by (simp add: strip_def isspace_def)
  have blank: "strip ''   '' = []"
    by (simp add: strip_def isspace_def)
  from add_transaction_accepts_any_description [where float = ?float
      and json_dump = "\<lambda>ts. ''[...]''" and now = "''2024-03-01 09:30:00''" and line = "''   ''"
      and self = "\<lparr>transactions = []\<rparr>" and w = "\<lparr>files = Map.empty, denied = (\<lambda>p. False), unreadable = (\<lambda>p. False)\<rparr>",
      OF amount_read choice_read] blank
  show ?thesis
    by simp
qed

text \<open>
  Claim C10. \<open>add_transaction\<close> puts one transaction at the end of the list, with the id
  \<open>length + 1\<close>. When the ids of the list are exactly 1 to its length, that id is not in
  the list, and afterwards the ids are again 1 to the length and all differ (first
  conjunct). But \<open>load_data\<close> takes the records of the file with whatever ids they have,
  and the next \<open>add_transaction\<close> still assigns \<open>length + 1\<close>: when that number is an id of
  a loaded record, the new transaction repeats it (second conjunct). So it is for the
  file that holds one record with the id 2: its ids are not 1 to 1, they all differ, and
  after the append the list holds that record and a new one with the same id (third
  conjunct).
\<close>

theorem ids_unique_unless_loaded:
  assumes "read_amount float ins1 = Inr (a, ins2)"
    and "read_choice a ins2 = Inr ((k, a'), ins3)"
  shows "(\<exists>self' w' report t.
            add_transaction float json_dump now (line # ins1) self w = Inr (self', w', report, ins3) \<and>
            transactions self' = transactions self @ [t] \<and>
            id' t = int (length (transactions self)) + 1 \<and>
            (map id' (transactions self) = [1..int (length (transactions self))] \<longrightarrow>
               id' t \<notin> set (map id' (transactions self)) \<and>
               map id' (transactions self') = [1..int (length (transactions self'))] \<and>
               distinct (map id' (transactions self')))) \<and>
         (files w1 DATA_FILE = Some text \<and> \<not> unreadable w1 DATA_FILE \<and> json_load text = Some ts \<longrightarrow>
            init json_load w1 = (Loaded (length ts), \<lparr>transactions = ts\<rparr>) \<and>
            (\<exists>self' w' report t.
               add_transaction float json_dump now (line # ins1) (snd (init json_load w1)) w1
                 = Inr (self', w', report, ins3) \<and>
               transactions self' = ts @ [t] \<and>
               id' t = int (length ts) + 1 \<and>
               (int (length ts) + 1 \<in> set (map id' ts) \<longrightarrow>
                  id' t \<in> set (map id' ts) \<and> \<not> distinct (map id' (transactions self'))))) \<and>
         (files w1 DATA_FILE = Some text \<and> \<not> unreadable w1 DATA_FILE \<and> json_load text = Some [t0] \<and>
          id' t0 = 2 \<longrightarrow>
            map id' [t0] \<noteq> [1..int (length [t0])] \<and>
            distinct (map id' [t0]) \<and>
            (\<exists>self' w' report t.
               add_transaction float json_dump now (line # ins1) (snd (init json_load w1)) w1
                 = Inr (self', w', report, ins3) \<and>
               transactions self' = [t0, t] \<and>
               id' t = id' t0))"
proof -
  let ?n = "int (length (transactions self))"
  have snoc: "[1..?n + 1] = [1..?n] @ [?n + 1]"
    by (rule upto_snoc) simp
  have fresh: "\<exists>self' w' report t.
            add_transaction float json_dump now (line # ins1) self w = Inr (self', w', report, ins3) \<and>
            transactions self' = transactions self @ [t] \<and>
            id' t = ?n + 1 \<and>
            (map id' (transactions self) = [1..?n] \<longrightarrow>
               id' t \<notin> set (map id' (transactions self)) \<and>
               map id' (transactions self') = [1..int (length (transactions self'))] \<and>
               distinct (map id' (transactions self')))"
    using snoc
    by (simp add: add_transaction_valid [OF assms] save_data_result add.commute)
  have loaded: "files w1 DATA_FILE = Some text \<and> \<not> unreadable w1 DATA_FILE \<and> json_load text = Some ts \<longrightarrow>
            init json_load w1 = (Loaded (length ts), \<lparr>transactions = ts\<rparr>) \<and>
            (\<exists>self' w' report t.
               add_transaction float json_dump now (line # ins1) (snd (init json_load w1)) w1
                 = Inr (self', w', report, ins3) \<and>
               transactions self' = ts @ [t] \<and>
               id' t = int (length ts) + 1 \<and>
               (int (length ts) + 1 \<in> set (map id' ts) \<longrightarrow>
                  id' t \<in> set (map id' ts) \<and> \<not> distinct (map id' (transactions self'))))"
    by (auto simp: init_def load_data_result add_transaction_valid [OF assms] save_data_result)
  have one: "files w1 DATA_FILE = Some text \<and> \<not> unreadable w1 DATA_FILE \<and> json_load text = Some [t0] \<and>
          id' t0 = 2 \<longrightarrow>
            map id' [t0] \<noteq> [1..int (length [t0])] \<and>
            distinct (map id' [t0]) \<and>
            (\<exists>self' w' report t.
               add_transaction float json_dump now (line # ins1) (snd (init json_load w1)) w1
                 = Inr (self', w', report, ins3) \<and>
               transactions self' = [t0, t] \<and>
               id' t = id' t0)"
    by (auto simp: init_def load_data_result add_transaction_valid [OF assms] save_data_result
        upto_rec1)
  show ?thesis
    using fresh loaded one by blast
qed

text \<open>
  An expense added to a list with the ids 1 to 1; and the file with one paycheck of id 2,
  loaded and followed by the same expense, which gets the id 2 as well.
\<close>

theorem ids_unique_unless_loaded_witness:
  "(\<exists>self' w' report t.
      add_transaction (\<lambda>s. if s = ''4.50'' then Some (4.5 :: real) else None) (\<lambda>ts. ''[...]'')
        ''2024-03-01 09:31:00'' [''Coffee'', ''4.50'', ''2'']
        \<lparr>transactions = [\<lparr>id' = 1, date = ''2024-03-01 09:30:00'', description = ''Paycheck'',
                           amount = 2000, type' = ''income''\<rparr>]\<rparr>
        \<lparr>files = Map.empty, denied = (\<lambda>p. False), unreadable = (\<lambda>p. False)\<rparr>
        = Inr (self', w', report, []) \<and>
      transactions self' =
        [\<lparr>id' = 1, date = ''2024-03-01 09:30:00'', description = ''Paycheck'',
          amount = 2000, type' = ''income''\<rparr>, t] \<and>
      id' t = 2 \<and>
      map id' (transactions self') = [1, 2] \<and>
      distinct (map id' (transactions self'))) \<and>
   init (\<lambda>text. if text = ''[paycheck with id 2]''
                then Some [\<lparr>id' = 2, date = ''2024-03-01 09:30:00'', description = ''Paycheck'',
                            amount = 2000 :: real, type' = ''income''\<rparr>]
                else None)
     \<lparr>files = [DATA_FILE \<mapsto> ''[paycheck with id 2]''], denied = (\<lambda>p. False),
       unreadable = (\<lambda>p. False)\<rparr>
     = (Loaded 1, \<lparr>transactions = [\<lparr>id' = 2, date = ''2024-03-01 09:30:00'',
          description = ''Paycheck'', amount = 2000, type' = ''income''\<rparr>]\<rparr>) \<and>
   (\<exists>self' w' report t.
      add_transaction (\<lambda>s. if s = ''4.50'' then Some (4.5 :: real) else None) (\<lambda>ts. ''[...]'')
        ''2024-03-01 09:31:00'' [''Coffee'', ''4.50'', ''2'']
        (snd (init (\<lambda>text. if text = ''[paycheck with id 2]''
                then Some [\<lparr>id' = 2, date = ''2024-03-01 09:30:00'', description = ''Paycheck'',
                            amount = 2000 :: real, type' = ''income''\<rparr>]
                else None)
           \<lparr>files = [DATA_FILE \<mapsto> ''[paycheck with id 2]''], denied = (\<lambda>p. False),
             unreadable = (\<lambda>p. False)\<rparr>))
        \<lparr>files = [DATA_FILE \<mapsto> ''[paycheck with id 2]''], denied = (\<lambda>p. False),
          unreadable = (\<lambda>p. False)\<rparr>
        = Inr (self', w', report, []) \<and>
      transactions self' =
        [\<lparr>id' = 2, date = ''2024-03-01 09:30:00'', description = ''Paycheck'',
          amount = 2000, type' = ''income''\<rparr>, t] \<and>
      id' t = 2)"
proof -
  let ?float = "\<lambda>s. if s = ''4.50'' then Some (4.5 :: real) else None"
  let ?dump = "\<lambda>ts :: real transaction list. ''[...]''"
  let ?one = "\<lparr>id' = 1, date = ''2024-03-01 09:30:00'', description = ''Paycheck'',
               amount = 2000 :: real, type' = ''income''\<rparr>"
  let ?two = "\<lparr>id' = 2, date = ''2024-03-01 09:30:00'', description = ''Paycheck'',
               amount = 2000 :: real, type' = ''income''\<rparr>"
  let ?load = "\<lambda>text. if text = ''[paycheck with id 2]'' then Some [?two] else None"
  let ?empty = "\<lparr>files = Map.empty, denied = (\<lambda>p. False), unreadable = (\<lambda>p. False)\<rparr>"
  let ?stored = "\<lparr>files = [DATA_FILE \<mapsto> ''[paycheck with id 2]''], denied = (\<lambda>p. False),
                  unreadable = (\<lambda>p. False)\<rparr>"
  have amount_read: "read_amount ?float [''4.50'', ''2''] = Inr (4.5, [''2''])"
    by simp
  have choice_read: "read_choice (4.5 :: real) [''2''] = Inr ((''expense'', - 4.5), [])"
    by (simp add: strip_def isspace_def)
  note both = ids_unique_unless_loaded [where float = ?float and json_dump = ?dump
      and json_load = ?load and now = "''2024-03-01 09:31:00''" and line = "''Coffee''"
      and self = "\<lparr>transactions = [?one]\<rparr>" and w = ?empty and ?w1.0 = ?stored
      and ?text = "''[paycheck with id 2]''" and ?t0.0 = ?two and ts = "[?two]",
      OF amount_read choice_read]
  have ids: "map id' (transactions \<lparr>transactions = [?one]\<rparr>)
      = [1..int (length (transactions \<lparr>transactions = [?one]\<rparr>))]"
    by (simp add: upto_rec1)
  have stored: "files ?stored DATA_FILE = Some ''[paycheck with id 2]'' \<and>
      \<not> unreadable ?stored DATA_FILE \<and> ?load ''[paycheck with id 2]'' = Some [?two] \<and> id' ?two = 2"
    by simp
  from both ids obtain self' w' report t
    where added: "add_transaction ?float ?dump ''2024-03-01 09:31:00'' [''Coffee'', ''4.50'', ''2'']
        \<lparr>transactions = [?one]\<rparr> ?empty = Inr (self', w', report, [])"
      and grown: "transactions self' = transactions \<lparr>transactions = [?one]\<rparr> @ [t]"
      and next_id: "id' t = int (length (transactions \<lparr>transactions = [?one]\<rparr>)) + 1"
      and all_differ: "distinct (map id' (transactions self'))"
    by blast
  from grown next_id have shape: "transactions self' = [?one, t]" and two: "id' t = 2"
    by simp_all
  have first: "\<exists>self' w' report t.
      add_transaction ?float ?dump ''2024-03-01 09:31:00'' [''Coffee'', ''4.50'', ''2'']
        \<lparr>transactions = [?one]\<rparr> ?empty = Inr (self', w', report, []) \<and>
      transactions self' = [?one, t] \<and> id' t = 2 \<and>
      map id' (transactions self') = [1, 2] \<and>
      distinct (map id' (transactions self'))"
    using all_differ
    by (intro exI [of _ self'] exI [of _ w'] exI [of _ report] exI [of _ t])
      (simp add: added shape two)
  have second: "init ?load ?stored = (Loaded 1, \<lparr>transactions = [?two]\<rparr>)"
    by (simp add: init_def load_data_result)
  note duplicate = both [THEN conjunct2, THEN conjunct2, rule_format, OF stored]
  then obtain self2 w2 report2 t2
    where added2: "add_transaction ?float ?dump ''2024-03-01 09:31:00'' [''Coffee'', ''4.50'', ''2'']
        (snd (init ?load ?stored)) ?stored = Inr (self2, w2, report2, [])"
      and shape2: "transactions self2 = [?two, t2]"
      and same: "id' t2 = id' ?two"
    by blast
  have third: "\<exists>self' w' report t.
      add_transaction ?float ?dump ''2024-03-01 09:31:00'' [''Coffee'', ''4.50'', ''2'']
        (snd (init ?load ?stored)) ?stored = Inr (self', w', report, []) \<and>
      transactions self' = [?two, t] \<and> id' t = 2"
    using same
    by (intro exI [of _ self2] exI [of _ w2] exI [of _ report2] exI [of _ t2])
      (simp add: added2 shape2)
  from first second third show ?thesis
    by (intro conjI)
qed

end
